theory Spec2Isabelle
  imports Main
begin

section \<open>Model: the question bank\<close>

text \<open>
  \<^verbatim>\<open>src/scripts/main.js\<close>, class \<^verbatim>\<open>QuestionAnswer\<close> (lines 10-20): a pair of strings.
  Strings are lists of code units; the model keeps to the 8-bit range (Latin-1), which
  covers every string of the source.
\<close>

record QuestionAnswer =
  question :: string
  answer :: string

text \<open>
  Class \<^verbatim>\<open>QuestionsList\<close> (lines 26-42) extends \<^verbatim>\<open>Array\<close>: the bank is a native
  array of \<^verbatim>\<open>QuestionAnswer\<close> objects. Its constructor drops every argument that is
  not an array and spreads each remaining one into \<^verbatim>\<open>new QuestionAnswer(q, a)\<close>;
  an argument that is not an array never reaches that call.
\<close>

type_synonym QuestionsList = "QuestionAnswer list"

datatype argument = ArrayArg string string | OtherArg

fun isArray :: "argument \<Rightarrow> bool" where
  "isArray (ArrayArg q a) = True"
| "isArray OtherArg = False"

fun newQuestionAnswer :: "argument \<Rightarrow> QuestionAnswer option" where
  "newQuestionAnswer (ArrayArg q a) = Some \<lparr>question = q, answer = a\<rparr>"
| "newQuestionAnswer OtherArg = None"

definition newQuestionsList :: "argument list \<Rightarrow> QuestionsList" where
  "newQuestionsList args = List.map_filter newQuestionAnswer (filter isArray args)"

text \<open>
  The bank has no accessor of its own: the controller reads \<^verbatim>\<open>this.questions[i]\<close>, the
  element read of a JavaScript array. It never raises; outside \<^verbatim>\<open>[0, length)\<close> it
  returns the value \<^verbatim>\<open>undefined\<close>.
\<close>

datatype 'a js = Undefined | Object 'a

definition get :: "QuestionsList \<Rightarrow> int \<Rightarrow> QuestionAnswer js" where
  "get qs i = (if 0 \<le> i \<and> i < int (length qs) then Object (qs ! nat i) else Undefined)"

text \<open>
  Reading a property of \<^verbatim>\<open>undefined\<close> raises \<^verbatim>\<open>TypeError\<close>, the only exception the
  program can raise.
\<close>

datatype error = TypeError

definition dot_question :: "QuestionAnswer js \<Rightarrow> error + string" where
  "dot_question x = (case x of Undefined \<Rightarrow> Inl TypeError | Object qa \<Rightarrow> Inr (question qa))"

definition dot_answer :: "QuestionAnswer js \<Rightarrow> error + string" where
  "dot_answer x = (case x of Undefined \<Rightarrow> Inl TypeError | Object qa \<Rightarrow> Inr (answer qa))"

text \<open>The bank of lines 228-235.\<close>

definition questions :: QuestionsList where
  "questions = newQuestionsList
     [ArrayArg ''What is the capital of Syria?'' ''Damascus'',
      ArrayArg ''Can fish fly?'' ''yes'',
      ArrayArg ''Can chickens swim?'' ''no'',
      ArrayArg ''Which city is the biggest in Germany?'' ''Berlin'',
      ArrayArg ''Is Pablo Escobar still alive?'' ''No'',
      ArrayArg ''Are JavaScript and Java the same programming language?'' ''No'']"

section \<open>Model: strings\<close>

text \<open>
  \<^verbatim>\<open>String.prototype.trim\<close> removes white space and line terminators from both ends;
  below U+0100 these are TAB, LF, VT, FF, CR, SPACE and NBSP.
  \<^verbatim>\<open>String.prototype.toLowerCase\<close> maps A-Z and the Latin-1 capitals U+00C0-U+00DE
  (without the multiplication sign U+00D7) 32 code units up.
\<close>

definition isWhiteSpace :: "char \<Rightarrow> bool" where
  "isWhiteSpace c = (of_char c \<in> {9, 10, 11, 12, 13, 32, 160 :: nat})"

definition trim :: "string \<Rightarrow> string" where
  "trim s = rev (dropWhile isWhiteSpace (rev (dropWhile isWhiteSpace s)))"

definition lowerChar :: "char \<Rightarrow> char" where
  "lowerChar c =
     (let n = (of_char c :: nat)
      in if (65 \<le> n \<and> n \<le> 90) \<or> (192 \<le> n \<and> n \<le> 222 \<and> n \<noteq> 215)
         then char_of (n + 32) else c)"

definition toLowerCase :: "string \<Rightarrow> string" where
  "toLowerCase s = map lowerChar s"

text \<open>
  Line 210 reads \<^verbatim>\<open>userAnswer.value.length\<close> where \<^verbatim>\<open>userAnswer\<close> is the trimmed string of
  line 201. A string has no property \<^verbatim>\<open>value\<close>, so the read gives \<^verbatim>\<open>undefined\<close>, and
  \<^verbatim>\<open>.length\<close> of \<^verbatim>\<open>undefined\<close> raises.
\<close>

definition dot_value :: "string \<Rightarrow> string js" where
  "dot_value s = Undefined"

definition dot_length :: "string js \<Rightarrow> error + int" where
  "dot_length x = (case x of Undefined \<Rightarrow> Inl TypeError | Object v \<Rightarrow> Inr (int (length v)))"

section \<open>Model: the view\<close>

text \<open>
  Class \<^verbatim>\<open>QuizzardsView\<close> (lines 50-142). Each \<^verbatim>\<open>print...\<close> method replaces the whole
  content of the container by one template; a template is identified by the method and
  its argument. The argument is taken as plain text: markup inside a question is outside
  the model.
\<close>

datatype template =
    PrintFirstPage int
  | PrintQuestion string
  | PrintResult string
  | PrintScore int

text \<open>
  The three controls the controller listens to (lines 175-177) and the templates that
  contain them: \<^verbatim>\<open>#play\<close> on the first page and the score page, \<^verbatim>\<open>#check-answer\<close> (with
  the input \<^verbatim>\<open>#answer\<close>) on a question page, \<^verbatim>\<open>#next\<close> on a result page.
\<close>

datatype selector = Play | CheckAnswer | Next

fun querySelectorAll :: "template \<Rightarrow> selector \<Rightarrow> bool" where
  "querySelectorAll (PrintFirstPage n) sel = (sel = Play)"
| "querySelectorAll (PrintQuestion q) sel = (sel = CheckAnswer)"
| "querySelectorAll (PrintResult r) sel = (sel = Next)"
| "querySelectorAll (PrintScore s) sel = (sel = Play)"

section \<open>Model: the controller\<close>

text \<open>
  Class \<^verbatim>\<open>QuizzardsApp\<close> (lines 151-222). \<^verbatim>\<open>state\<close> holds two JavaScript numbers that
  only ever hold integers; they are modelled as \<open>int\<close>, which is exact below
  \<open>2 ^ 53\<close>. A handler returns whether it raised, the state it leaves and the templates
  it printed, in order.
\<close>

record state =
  current :: int
  score :: int

type_synonym effect = "(error + unit) \<times> state \<times> template list"

fun completion :: "effect \<Rightarrow> error + unit" where
  "completion (r, s, ts) = r"

fun state_after :: "effect \<Rightarrow> state" where
  "state_after (r, s, ts) = s"

fun printed :: "effect \<Rightarrow> template list" where
  "printed (r, s, ts) = ts"

text \<open>\<^verbatim>\<open>startGame\<close>, lines 183-189. The state is written before the question is read.\<close>

definition startGame :: "QuestionsList \<Rightarrow> state \<Rightarrow> effect" where
  "startGame qs s =
     (let s1 = s\<lparr>current := 0\<rparr>;
          s2 = s1\<lparr>score := 0\<rparr>
      in case dot_question (get qs (current s2)) of
           Inl e \<Rightarrow> (Inl e, s2, [])
         | Inr q \<Rightarrow> (Inr (), s2, [PrintQuestion q]))"

text \<open>
  \<^verbatim>\<open>checkAnswer\<close>, lines 195-213; \<open>raw\<close> is the value of the input \<^verbatim>\<open>#answer\<close>.
  The last branch is written \<^verbatim>\<open>else (userAnswer.value.length >= 1) { ... }\<close>, which
  JavaScript does not accept as it stands; it is read as the guarded branch
  \<^verbatim>\<open>else if (...)\<close>, like the branch commented out above it. The guard is evaluated
  before the block is entered, and evaluating it raises, so the block is never run.
\<close>

definition checkAnswer :: "QuestionsList \<Rightarrow> state \<Rightarrow> string \<Rightarrow> effect" where
  "checkAnswer qs s raw =
     (let userAnswer = trim raw
      in if current s \<ge> int (length qs) - 1 then (Inr (), s, [PrintScore (score s)])
         else (case dot_answer (get qs (current s)) of
           Inl e \<Rightarrow> (Inl e, s, [])
         | Inr a \<Rightarrow>
             if toLowerCase userAnswer = toLowerCase a
             then (Inr (), s\<lparr>score := score s + 1\<rparr>,
                   [PrintResult ''Correct! You might not be as dumb as I thought you were.''])
             else (case dot_length (dot_value userAnswer) of
               Inl e \<Rightarrow> (Inl e, s, [])
             | Inr n \<Rightarrow>
                 if n \<ge> 1 then (Inr (), s, [PrintResult ''Wrong human, try again!''])
                 else (Inr (), s, []))))"

text \<open>\<^verbatim>\<open>nextQuestion\<close>, lines 218-221. The index is incremented before the read.\<close>

definition nextQuestion :: "QuestionsList \<Rightarrow> state \<Rightarrow> effect" where
  "nextQuestion qs s =
     (let s1 = s\<lparr>current := current s + 1\<rparr>
      in case dot_question (get qs (current s1)) of
           Inl e \<Rightarrow> (Inl e, s1, [])
         | Inr q \<Rightarrow> (Inr (), s1, [PrintQuestion q]))"

text \<open>
  The running application: what the container shows and the controller's state.
  \<^verbatim>\<open>init\<close> (lines 170-178) prints the first page with the number of questions; the
  constructor (lines 158-165) sets the state to zero.
\<close>

record QuizzardsApp =
  shown :: template
  state :: state

definition init :: "QuestionsList \<Rightarrow> QuizzardsApp" where
  "init qs = \<lparr>shown = PrintFirstPage (int (length qs)), state = \<lparr>current = 0, score = 0\<rparr>\<rparr>"

text \<open>\<^verbatim>\<open>printTemplate\<close> (lines 63-65): each template printed replaces the one before.\<close>

definition printTemplates :: "template \<Rightarrow> template list \<Rightarrow> template" where
  "printTemplates t ts = foldl (\<lambda>old new. new) t ts"

text \<open>
  A click on one of the controls; a click on \<^verbatim>\<open>#check-answer\<close> comes with the text of
  the input. \<^verbatim>\<open>delegateListener\<close> (lines 131-141) calls the handler only when the
  clicked element is among the elements of the container that match the selector, so
  a click on a control that the shown template lacks calls nothing. An exception
  leaves a handler before it prints, so the template stays.
\<close>

datatype click = ClickPlay | ClickCheckAnswer string | ClickNext

fun target :: "click \<Rightarrow> selector" where
  "target ClickPlay = Play"
| "target (ClickCheckAnswer raw) = CheckAnswer"
| "target ClickNext = Next"

fun handler :: "QuestionsList \<Rightarrow> click \<Rightarrow> state \<Rightarrow> effect" where
  "handler qs ClickPlay s = startGame qs s"
| "handler qs (ClickCheckAnswer raw) s = checkAnswer qs s raw"
| "handler qs ClickNext s = nextQuestion qs s"

definition delegateListener :: "QuestionsList \<Rightarrow> QuizzardsApp \<Rightarrow> click \<Rightarrow> QuizzardsApp" where
  "delegateListener qs a ev =
     (if querySelectorAll (shown a) (target ev)
      then (case handler qs ev (state a) of
              (r, s, ts) \<Rightarrow> \<lparr>shown = printTemplates (shown a) ts, state = s\<rparr>)
      else a)"

definition run :: "QuestionsList \<Rightarrow> click list \<Rightarrow> QuizzardsApp" where
  "run qs evs = foldl (delegateListener qs) (init qs) evs"

text \<open>
  What holds of the state on each page: on a result page the score may be one ahead of
  the index, and the index is not the last one.
\<close>

definition page_bounds :: "QuestionsList \<Rightarrow> QuizzardsApp \<Rightarrow> bool" where
  "page_bounds qs a =
     (let i = current (state a); n = score (state a); len = int (length qs)
      in case shown a of
           PrintFirstPage k \<Rightarrow> i = 0 \<and> n = 0
         | PrintQuestion q \<Rightarrow> 0 \<le> n \<and> n \<le> i \<and> i < len
         | PrintResult r \<Rightarrow> 0 \<le> n \<and> n \<le> i + 1 \<and> 0 \<le> i \<and> i + 1 < len
         | PrintScore k \<Rightarrow> 0 \<le> n \<and> n \<le> i \<and> i < len)"

text \<open>A bank of one question, the bank of the first scenarios of the specification.\<close>

definition syria :: QuestionsList where
  "syria = newQuestionsList [ArrayArg ''What is the capital of Syria?'' ''Damascus'']"

section \<open>The handlers, case by case\<close>

lemmas handler_defs =
  checkAnswer_def startGame_def nextQuestion_def get_def
  dot_question_def dot_answer_def dot_value_def dot_length_def

lemmas bank_defs = syria_def questions_def newQuestionsList_def List.map_filter_simps

lemmas string_defs = trim_def toLowerCase_def lowerChar_def isWhiteSpace_def

lemmas app_defs = run_def delegateListener_def init_def printTemplates_def

lemma state_reset: "s\<lparr>current := 0, score := 0\<rparr> = \<lparr>current = 0, score = 0\<rparr>"
  by (cases s) simp

text \<open>On the last question the answer is not looked at: the score page is printed.\<close>

lemma checkAnswer_last:
  assumes "int (length qs) - 1 \<le> current s"
  shows "checkAnswer qs s raw = (Inr (), s, [PrintScore (score s)])"
  using assms by (simp add: checkAnswer_def)

text \<open>Before the last question a matching answer adds one to the score.\<close>

lemma checkAnswer_correct:
  assumes "0 \<le> current s" and "current s < int (length qs) - 1"
    and "toLowerCase (trim raw) = toLowerCase (answer (qs ! nat (current s)))"
  shows "checkAnswer qs s raw =
    (Inr (), s\<lparr>score := score s + 1\<rparr>,
     [PrintResult ''Correct! You might not be as dumb as I thought you were.''])"
  using assms by (simp add: handler_defs)

text \<open>Before the last question any other answer ends in the exception of line 210.\<close>

lemma checkAnswer_wrong:
  assumes "0 \<le> current s" and "current s < int (length qs) - 1"
    and "toLowerCase (trim raw) \<noteq> toLowerCase (answer (qs ! nat (current s)))"
  shows "checkAnswer qs s raw = (Inl TypeError, s, [])"
  using assms by (simp add: handler_defs)

lemma nextQuestion_in_range:
  assumes "0 \<le> current s + 1" and "current s + 1 < int (length qs)"
  shows "nextQuestion qs s =
    (Inr (), s\<lparr>current := current s + 1\<rparr>,
     [PrintQuestion (question (qs ! nat (current s + 1)))])"
  using assms by (simp add: handler_defs)

text \<open>Past the end of the bank \<^verbatim>\<open>nextQuestion\<close> raises; it never prints the score page.\<close>

lemma nextQuestion_past_end:
  assumes "int (length qs) \<le> current s + 1"
  shows "nextQuestion qs s = (Inl TypeError, s\<lparr>current := current s + 1\<rparr>, [])"
  using assms by (simp add: handler_defs)

lemma nextQuestion_never_prints_score: "PrintScore n \<notin> set (printed (nextQuestion qs s))"
  by (simp add: handler_defs Let_def split: sum.splits)

lemma startGame_nonempty:
  assumes "qs \<noteq> []"
  shows "startGame qs s =
    (Inr (), \<lparr>current = 0, score = 0\<rparr>, [PrintQuestion (question (qs ! 0))])"
  using assms by (simp add: handler_defs state_reset)

text \<open>No handler prints twice, and a handler that returns has printed once.\<close>

lemma printed_at_most_once: "length (printed (handler qs ev s)) \<le> 1"
  by (cases ev) (simp_all add: handler_defs Let_def split: sum.splits)

lemma printed_once_when_returning:
  assumes "completion (handler qs ev s) = Inr ()"
  shows "length (printed (handler qs ev s)) = 1"
  using assms by (cases ev) (simp_all add: handler_defs Let_def split: if_splits)

section \<open>The pages of a run\<close>

lemma page_bounds_init: "page_bounds qs (init qs)"
  by (simp add: page_bounds_def init_def)

lemma page_bounds_step:
  assumes "page_bounds qs a"
  shows "page_bounds qs (delegateListener qs a ev)"
proof (cases "querySelectorAll (shown a) (target ev)")
  case False
  then show ?thesis using assms by (simp add: delegateListener_def)
next
  case True
  show ?thesis
  proof (cases ev)
    case ClickPlay
    with True assms show ?thesis
      by (cases "shown a")
         (auto simp: page_bounds_def delegateListener_def printTemplates_def handler_defs Let_def
               split: if_splits)
  next
    case (ClickCheckAnswer raw)
    with True assms show ?thesis
      by (cases "shown a")
         (auto simp: page_bounds_def delegateListener_def printTemplates_def handler_defs Let_def
               split: if_splits)
  next
    case ClickNext
    with True assms show ?thesis
      by (cases "shown a")
         (auto simp: page_bounds_def delegateListener_def printTemplates_def handler_defs Let_def
               split: if_splits)
  qed
qed

lemma page_bounds_run: "page_bounds qs (run qs evs)"
proof (induction evs rule: rev_induct)
  case Nil
  show ?case by (simp add: run_def page_bounds_init)
next
  case (snoc ev evs)
  then show ?case by (simp add: run_def page_bounds_step)
qed

section \<open>The claims\<close>

text \<open>
  C1. The specification wants every submission graded, the last one too, followed by a
  result page, with the score page only after the next advance. On the bank of one
  question the answer \<open>damascus\<close> matches the stored answer, yet the click on
  \<^verbatim>\<open>#check-answer\<close> prints the score page at once and the score stays 0: the test of
  line 203 comes before the comparison of line 205.
\<close>

theorem last_submission_skips_grading:
  "toLowerCase (trim ''damascus'') = toLowerCase (answer (syria ! 0)) \<and>
   run syria [ClickPlay, ClickCheckAnswer ''damascus''] =
     \<lparr>shown = PrintScore 0, state = \<lparr>current = 0, score = 0\<rparr>\<rparr>"
  by code_simp

text \<open>
  C2, as stated: in every state a run reaches, \<open>0 \<le> score \<le> current \<le> length\<close>.
  After the first question of the bank is answered correctly the score is 1 and the
  index is still 0.
\<close>

theorem score_exceeds_index_counterexample:
  "\<not> score (state (run questions [ClickPlay, ClickCheckAnswer ''Damascus'']))
      \<le> current (state (run questions [ClickPlay, ClickCheckAnswer ''Damascus'']))"
  by code_simp

text \<open>
  C2, amended: for every bank and every sequence of clicks, the state the run reaches
  has \<open>0 \<le> score\<close>, \<open>0 \<le> current \<le> length\<close> and \<open>score \<le> current\<close>, except that
  while a result page is shown (the page with \<^verbatim>\<open>#next\<close>) the bound on the score is
  \<open>current + 1\<close>.
\<close>

theorem run_state_bounds:
  "0 \<le> score (state (run qs evs)) \<and>
   score (state (run qs evs)) \<le>
     current (state (run qs evs)) +
       (if querySelectorAll (shown (run qs evs)) Next then 1 else 0) \<and>
   0 \<le> current (state (run qs evs)) \<and>
   current (state (run qs evs)) \<le> int (length qs)"
  using page_bounds_run [of qs evs]
  by (cases "shown (run qs evs)") (auto simp: page_bounds_def Let_def)

text \<open>
  C3. A submission that equals the stored answer after trimming and case folding is to
  give a result page and one more point, at every index. \<open>'' damascus  ''\<close> does match
  \<open>''Damascus''\<close>, but on the bank of one question, where index 0 is the last one,
  \<^verbatim>\<open>checkAnswer\<close> leaves the score at 0 and prints the score page.
\<close>

theorem matching_last_answer_not_counted:
  "toLowerCase (trim '' damascus  '') = toLowerCase ''Damascus'' \<and>
   checkAnswer syria \<lparr>current = 0, score = 0\<rparr> '' damascus  '' =
     (Inr (), \<lparr>current = 0, score = 0\<rparr>, [PrintScore 0])"
  by code_simp


text \<open>
  C5. Every transition is to print exactly once. On the bank of the program, at the
  first question, the answer \<open>Aleppo\<close> does not match; \<^verbatim>\<open>checkAnswer\<close> then evaluates
  \<^verbatim>\<open>userAnswer.value.length\<close>, which raises, and returns without having printed.
\<close>

theorem wrong_answer_prints_nothing:
  "printed (checkAnswer questions \<lparr>current = 0, score = 0\<rparr> ''Aleppo'') = [] \<and>
   completion (checkAnswer questions \<lparr>current = 0, score = 0\<rparr> ''Aleppo'') = Inl TypeError"
  by code_simp

text \<open>
  C6. The empty submission is to be graded as an ordinary wrong answer, with a result
  page carrying the failure message and no crash. On the bank of the program, at the
  first question, \<^verbatim>\<open>checkAnswer\<close> raises on it and prints nothing; the score is
  unchanged.
\<close>

theorem empty_answer_raises:
  "checkAnswer questions \<lparr>current = 0, score = 0\<rparr> [] =
     (Inl TypeError, \<lparr>current = 0, score = 0\<rparr>, [])"
  by code_simp

text \<open>
  C7, as stated: on a bank of length 0 the start fails fast with a configuration error,
  before any render command, and does not attempt to render an undefined question.
  For the empty bank \<^verbatim>\<open>init\<close> has printed the first page, for 0 questions, before any
  click; the click on \<^verbatim>\<open>#play\<close> then reads the question at index 0, which is
  \<^verbatim>\<open>undefined\<close>, and what it fails with is the \<^verbatim>\<open>TypeError\<close> of reading \<^verbatim>\<open>.question\<close> of
  it, in the argument of \<^verbatim>\<open>printQuestion\<close>. Nothing checks the length of the bank.
\<close>

theorem empty_bank_start_counterexample:
  "run [] [] = \<lparr>shown = PrintFirstPage 0, state = \<lparr>current = 0, score = 0\<rparr>\<rparr> \<and>
   querySelectorAll (shown (run [] [])) Play \<and>
   get [] 0 = Undefined \<and>
   dot_question (get [] 0) = Inl TypeError \<and>
   completion (startGame [] (state (run [] []))) = Inl TypeError"
  by code_simp

text \<open>
  C7, amended: on a bank of length 0 the first page is printed all the same; the start
  then sets index and score to 0, reads the question at index 0, which is \<^verbatim>\<open>undefined\<close>,
  and raises \<^verbatim>\<open>TypeError\<close> on its \<^verbatim>\<open>.question\<close> before \<^verbatim>\<open>printQuestion\<close> is called: the
  start prints nothing and the first page stays.
\<close>

theorem startGame_empty_bank:
  "shown (init []) = PrintFirstPage 0 \<and>
   get [] 0 = Undefined \<and>
   startGame [] s = (Inl TypeError, \<lparr>current = 0, score = 0\<rparr>, []) \<and>
   delegateListener [] (init []) ClickPlay = init []"
  by (simp add: handler_defs app_defs state_reset)

text \<open>
  C8. From every state, also the one a finished run leaves, \<^verbatim>\<open>startGame\<close> sets index
  and score to 0, and on a bank that is not empty it prints the question at index 0.
\<close>

theorem startGame_resets:
  "state_after (startGame qs s) = \<lparr>current = 0, score = 0\<rparr> \<and>
   (qs \<noteq> [] \<longrightarrow>
      startGame qs s =
        (Inr (), \<lparr>current = 0, score = 0\<rparr>, [PrintQuestion (question (qs ! 0))]))"
  by (simp add: handler_defs state_reset Let_def)

theorem startGame_resets_witness:
  "questions \<noteq> [] \<and>
   startGame questions \<lparr>current = 5, score = 5\<rparr> =
     (Inr (), \<lparr>current = 0, score = 0\<rparr>, [PrintQuestion ''What is the capital of Syria?''])"
proof -
  have ne: "questions \<noteq> []"
    by (simp add: bank_defs)
  have q0: "question (questions ! 0) = ''What is the capital of Syria?''"
    by (simp add: bank_defs)
  from startGame_resets [of questions "\<lparr>current = 5, score = 5\<rparr>"] ne
  have "startGame questions \<lparr>current = 5, score = 5\<rparr> =
          (Inr (), \<lparr>current = 0, score = 0\<rparr>, [PrintQuestion (question (questions ! 0))])"
    by blast
  with ne q0 show ?thesis by simp
qed

text \<open>
  C9, as stated: outside \<open>[0, length)\<close> the read of the bank fails with an out-of-range
  condition instead of returning a value. The bank of the program has six entries; its
  reads at 6 and at -1 return \<^verbatim>\<open>undefined\<close>. What fails is the later read of a property
  of that value, with \<^verbatim>\<open>TypeError\<close>.
\<close>

theorem get_out_of_range_counterexample:
  "get questions 6 = Undefined \<and> get questions (- 1) = Undefined \<and>
   dot_question (get questions 6) = Inl TypeError"
  by code_simp

text \<open>
  C9, amended: for every index in \<open>[0, length)\<close> the read returns the pair at that
  index; for every other index it returns \<^verbatim>\<open>undefined\<close>, and reading \<^verbatim>\<open>.question\<close> or
  \<^verbatim>\<open>.answer\<close> of the result raises \<^verbatim>\<open>TypeError\<close>.
\<close>

theorem get_returns:
  "(0 \<le> i \<and> i < int (length qs) \<longrightarrow> get qs i = Object (qs ! nat i)) \<and>
   (\<not> (0 \<le> i \<and> i < int (length qs)) \<longrightarrow>
      get qs i = Undefined \<and> dot_question (get qs i) = Inl TypeError \<and>
      dot_answer (get qs i) = Inl TypeError)"
  by (simp add: get_def dot_question_def dot_answer_def)

theorem get_returns_witness:
  "(0 \<le> (3::int) \<and> 3 < int (length questions)) \<and>
   get questions 3 =
     Object \<lparr>question = ''Which city is the biggest in Germany?'', answer = ''Berlin''\<rparr> \<and>
   \<not> (0 \<le> (6::int) \<and> 6 < int (length questions)) \<and>
   get questions 6 = Undefined \<and>
   dot_question (get questions 6) = Inl TypeError \<and>
   dot_answer (get questions 6) = Inl TypeError"
proof -
  have inside: "0 \<le> (3::int) \<and> 3 < int (length questions)"
    by (simp add: bank_defs)
  have outside: "\<not> (0 \<le> (6::int) \<and> 6 < int (length questions))"
    by (simp add: bank_defs)
  have q3: "questions ! nat 3 =
      \<lparr>question = ''Which city is the biggest in Germany?'', answer = ''Berlin''\<rparr>"
    by code_simp
  from get_returns [of 3 questions] inside
  have a: "get questions 3 = Object (questions ! nat 3)"
    by blast
  from get_returns [of 6 questions] outside
  have b: "get questions 6 = Undefined \<and> dot_question (get questions 6) = Inl TypeError \<and>
      dot_answer (get questions 6) = Inl TypeError"
    by blast
  from a q3 have a': "get questions 3 =
      Object \<lparr>question = ''Which city is the biggest in Germany?'', answer = ''Berlin''\<rparr>"
    by (rule trans [OF _ arg_cong [of _ _ Object]])
  from inside outside a' b show ?thesis by blast
qed

text \<open>
  C10. \<^verbatim>\<open>checkAnswer\<close> leaves the index as it was, whatever the state and the
  submission, also when it raises; \<^verbatim>\<open>nextQuestion\<close> adds one to it and \<^verbatim>\<open>startGame\<close>
  sets it to 0, both before anything they do can raise.
\<close>

theorem current_frame:
  "current (state_after (checkAnswer qs s raw)) = current s \<and>
   current (state_after (nextQuestion qs s)) = current s + 1 \<and>
   current (state_after (startGame qs s)) = 0"
  by (simp add: handler_defs Let_def split: sum.splits)

end
